theory Spec2Isabelle
  imports Main
begin

section \<open>JavaScript values\<close>

text \<open>
  A JavaScript string is a sequence of UTF-16 code units. A code unit is modelled as a
  natural number (its \<^verbatim>\<open>charCodeAt\<close> value); \<open>str\<close> turns a literal into such a
  sequence.
\<close>

type_synonym js_string = "nat list"

definition str :: "string \<Rightarrow> js_string" where
  "str s = map of_char s"

text \<open>
  The values the callback receives with type \<^verbatim>\<open>unknown\<close> are modelled as plain data:
  \<^verbatim>\<open>undefined\<close>, \<^verbatim>\<open>null\<close>, booleans, numbers, strings, arrays and plain objects. A
  number is an IEEE double in the source; its type is the parameter \<open>'n\<close>, and the two
  conversions between numbers and strings are taken from the runtime (see \<open>runtime\<close>
  below). An object is the list of its own enumerable string-keyed properties, as
  \<^verbatim>\<open>Object.entries\<close> lists them (an object that the model builds lists them in the
  order of their creation); it inherits \<^verbatim>\<open>toString\<close> from \<^verbatim>\<open>Object.prototype\<close>.
  The keys of an object are distinct.
\<close>

datatype 'n jsval =
    Undefined
  | Null
  | Bool bool
  | Number 'n
  | String js_string
  | Array "'n jsval list"
  | Object "(js_string \<times> 'n jsval) list"

type_synonym 'n entries = "(js_string \<times> 'n jsval) list"

text \<open>\<^verbatim>\<open>xs.join(sep)\<close> on strings already converted.\<close>

fun join :: "js_string \<Rightarrow> js_string list \<Rightarrow> js_string" where
  "join sep [] = []"
| "join sep [x] = x"
| "join sep (x # y # ys) = x @ sep @ join sep (y # ys)"

text \<open>
  The string conversion of a template literal, \<^verbatim>\<open>`${v}`\<close> (ECMAScript
  \<^verbatim>\<open>ToString\<close>). An array converts through \<^verbatim>\<open>Array.prototype.join\<close>, where
  \<^verbatim>\<open>undefined\<close> and \<^verbatim>\<open>null\<close> elements give the empty string; a plain object
  converts to \<^verbatim>\<open>[object Object]\<close>. The first argument is the runtime's
  \<^verbatim>\<open>Number::toString\<close>.
\<close>

fun ToString :: "('n \<Rightarrow> js_string) \<Rightarrow> 'n jsval \<Rightarrow> js_string" where
  "ToString nts Undefined = str ''undefined''"
| "ToString nts Null = str ''null''"
| "ToString nts (Bool b) = (if b then str ''true'' else str ''false'')"
| "ToString nts (Number n) = nts n"
| "ToString nts (String s) = s"
| "ToString nts (Array xs) =
     join (str '','')
       (map (\<lambda>x. if x = Undefined \<or> x = Null then [] else ToString nts x) xs)"
| "ToString nts (Object ps) = str ''[object Object]''"

section \<open>Integers as text\<close>

text \<open>
  \<^verbatim>\<open>n.toString(radix)\<close> for a non-negative integer \<open>n\<close> and a radix from 2 to 36:
  the digits \<^verbatim>\<open>0-9a-z\<close>, most significant first.
\<close>

definition digit :: "nat \<Rightarrow> nat" where
  "digit d = (if d < 10 then 48 + d else 87 + d)"

function toString_radix :: "nat \<Rightarrow> nat \<Rightarrow> js_string" where
  "toString_radix radix n =
     (if radix < 2 \<or> n < radix then [digit n]
      else toString_radix radix (n div radix) @ [digit (n mod radix)])"
  by pat_completeness auto
termination
  by (relation "measure (\<lambda>(radix, n). n)") auto

declare toString_radix.simps [simp del]

text \<open>The decimal text of an integer, as a template literal prints it.\<close>

definition toString_int :: "int \<Rightarrow> js_string" where
  "toString_int i =
     (if i < 0 then 45 # toString_radix 10 (nat (- i)) else toString_radix 10 (nat i))"

text \<open>
  \<^verbatim>\<open>s.toUpperCase()\<close>, on the code units \<^verbatim>\<open>a-z\<close>; the source applies it to the
  hexadecimal digits of a code unit only.
\<close>

definition toUpperCase :: "js_string \<Rightarrow> js_string" where
  "toUpperCase s = map (\<lambda>c. if 97 \<le> c \<and> c \<le> 122 then c - 32 else c) s"

section \<open>The helper routines of client.ts\<close>

text \<open>
  \<^verbatim>\<open>ensureNoQueryOrFragment\<close>: \<^verbatim>\<open>path.replaceAll(/\?|#/g, (char) =>
  `%${char.charCodeAt(0).toString(16).toUpperCase()}`)\<close>. The pattern matches one code
  unit, \<^verbatim>\<open>?\<close> (63) or \<^verbatim>\<open>#\<close> (35), so the replacement runs over the code units.
\<close>

definition escape_char :: "nat \<Rightarrow> js_string" where
  "escape_char char = str ''%'' @ toUpperCase (toString_radix 16 char)"

definition ensureNoQueryOrFragment :: "js_string \<Rightarrow> js_string" where
  "ensureNoQueryOrFragment path =
     concat (map (\<lambda>char. if char = 63 \<or> char = 35 then escape_char char else [char]) path)"

text \<open>
  \<^verbatim>\<open>getURLSearchParams\<close>: the pairs handed to \<^verbatim>\<open>new URLSearchParams\<close>, which keeps
  their order and their repetitions.
\<close>

definition getURLSearchParams ::
  "('n \<Rightarrow> js_string) \<Rightarrow> 'n entries \<Rightarrow> (js_string \<times> js_string) list" where
  "getURLSearchParams nts query =
     concat (map (\<lambda>(qKey, qValue).
                (case qValue of
                   Array xs \<Rightarrow> map (\<lambda>value. (qKey, ToString nts value)) xs
                 | _ \<Rightarrow> [(qKey, ToString nts qValue)]))
              (filter (\<lambda>(qKey, value). value \<noteq> Undefined) query))"

text \<open>\<^verbatim>\<open>getOutgoingHeader\<close>: the result is a string, a number or an array of strings.\<close>

fun getOutgoingHeader :: "('n \<Rightarrow> js_string) \<Rightarrow> 'n jsval \<Rightarrow> 'n jsval" where
  "getOutgoingHeader nts (String s) = String s"
| "getOutgoingHeader nts (Number n) = Number n"
| "getOutgoingHeader nts (Array xs) =
     Array (map (\<lambda>v. String (ToString nts v)) (filter (\<lambda>v. v \<noteq> Undefined) xs))"
| "getOutgoingHeader nts header = String (ToString nts header)"

text \<open>
  \<^verbatim>\<open>Object.fromEntries\<close>: a later entry with the key of an earlier one replaces its
  value and keeps its place.
\<close>

fun set_property :: "js_string \<Rightarrow> 'v \<Rightarrow> (js_string \<times> 'v) list \<Rightarrow> (js_string \<times> 'v) list" where
  "set_property k v [] = [(k, v)]"
| "set_property k v ((k', v') # ps) =
     (if k' = k then (k, v) # ps else (k', v') # set_property k v ps)"

definition fromEntries :: "(js_string \<times> 'v) list \<Rightarrow> (js_string \<times> 'v) list" where
  "fromEntries es = foldl (\<lambda>obj (k, v). set_property k v obj) [] es"

definition getOutgoingHeaders ::
  "('n \<Rightarrow> js_string) \<Rightarrow> 'n entries option \<Rightarrow> 'n entries option" where
  "getOutgoingHeaders nts headers =
     (case headers of
        None \<Rightarrow> None
      | Some hs \<Rightarrow>
          Some (fromEntries
                  (map (\<lambda>(headerName, header). (headerName, getOutgoingHeader nts header))
                     (filter (\<lambda>(headerName, header). header \<noteq> Undefined) hs))))"

section \<open>JSON.parse\<close>

text \<open>
  \<^verbatim>\<open>JSON.parse(text, reviver)\<close> is a built-in of the runtime. Its grammar (ECMA-404) is
  modelled by a lexer over the code units of the text and a stack machine over the
  tokens; its reviver walk (\<^verbatim>\<open>InternalizeJSONProperty\<close> of ECMA-262) by \<open>internalize\<close>.
\<close>

datatype token =
    LBrace | RBrace | LBracket | RBracket | Colon | Comma
  | TString js_string
  | TNumber js_string
  | TWord js_string

definition is_digit :: "nat \<Rightarrow> bool" where
  "is_digit c = (48 \<le> c \<and> c \<le> 57)"

definition is_lower :: "nat \<Rightarrow> bool" where
  "is_lower c = (97 \<le> c \<and> c \<le> 122)"

definition is_whitespace :: "nat \<Rightarrow> bool" where
  "is_whitespace c = (c = 32 \<or> c = 9 \<or> c = 10 \<or> c = 13)"

text \<open>The code units a number is written with: digits, \<^verbatim>\<open>+ - . e E\<close>.\<close>

definition is_number_char :: "nat \<Rightarrow> bool" where
  "is_number_char c = (is_digit c \<or> c = 43 \<or> c = 45 \<or> c = 46 \<or> c = 101 \<or> c = 69)"

definition hex_value :: "nat \<Rightarrow> nat option" where
  "hex_value c =
     (if 48 \<le> c \<and> c \<le> 57 then Some (c - 48)
      else if 97 \<le> c \<and> c \<le> 102 then Some (c - 87)
      else if 65 \<le> c \<and> c \<le> 70 then Some (c - 55)
      else None)"

text \<open>
  The number grammar: an optional minus, \<^verbatim>\<open>0\<close> or a digit \<^verbatim>\<open>1-9\<close> followed by
  digits, an optional fraction (a point and at least one digit), an optional exponent
  (\<^verbatim>\<open>e\<close> or \<^verbatim>\<open>E\<close>, an optional sign, at least one digit).
\<close>

definition json_exponent :: "js_string \<Rightarrow> bool" where
  "json_exponent cs =
     (case cs of
        [] \<Rightarrow> True
      | e # r \<Rightarrow>
          (e = 101 \<or> e = 69) \<and>
          (let ds = (case r of [] \<Rightarrow> [] | s # r' \<Rightarrow> if s = 43 \<or> s = 45 then r' else r)
           in ds \<noteq> [] \<and> list_all is_digit ds))"

definition json_fraction :: "js_string \<Rightarrow> bool" where
  "json_fraction cs =
     (case cs of
        [] \<Rightarrow> True
      | p # r \<Rightarrow>
          if p = 46
          then (case r of [] \<Rightarrow> False
                | d # r' \<Rightarrow> is_digit d \<and> json_exponent (dropWhile is_digit r'))
          else json_exponent cs)"

definition json_number :: "js_string \<Rightarrow> bool" where
  "json_number cs =
     (case (case cs of [] \<Rightarrow> [] | m # r \<Rightarrow> if m = 45 then r else cs) of
        [] \<Rightarrow> False
      | d # r \<Rightarrow>
          if d = 48 then json_fraction r
          else is_digit d \<and> json_fraction (dropWhile is_digit r))"

text \<open>
  The lexer. The mode says what the code units read so far belong to; a string, a number
  or a word under construction is kept in reverse. A number is the longest run of number
  code units and a word (\<^verbatim>\<open>true\<close>, \<^verbatim>\<open>false\<close>, \<^verbatim>\<open>null\<close>) the longest run of
  lower-case letters: in a well-formed text neither is followed by one more of them.
\<close>

datatype lex_mode =
    Ground
  | InString js_string
  | InEscape js_string
  | InUnicode js_string nat nat
  | InNumber js_string
  | InWord js_string

definition emit :: "token \<Rightarrow> token list option \<Rightarrow> token list option" where
  "emit t r = map_option ((#) t) r"

function (sequential) lex :: "lex_mode \<Rightarrow> js_string \<Rightarrow> token list option" where
  "lex Ground [] = Some []"
| "lex Ground (c # cs) =
     (if is_whitespace c then lex Ground cs
      else if c = 123 then emit LBrace (lex Ground cs)
      else if c = 125 then emit RBrace (lex Ground cs)
      else if c = 91 then emit LBracket (lex Ground cs)
      else if c = 93 then emit RBracket (lex Ground cs)
      else if c = 58 then emit Colon (lex Ground cs)
      else if c = 44 then emit Comma (lex Ground cs)
      else if c = 34 then lex (InString []) cs
      else if c = 45 \<or> is_digit c then lex (InNumber [c]) cs
      else if is_lower c then lex (InWord [c]) cs
      else None)"
| "lex (InString acc) [] = None"
| "lex (InString acc) (c # cs) =
     (if c = 34 then emit (TString (rev acc)) (lex Ground cs)
      else if c = 92 then lex (InEscape acc) cs
      else if c < 32 then None
      else lex (InString (c # acc)) cs)"
| "lex (InEscape acc) [] = None"
| "lex (InEscape acc) (c # cs) =
     (if c = 34 \<or> c = 92 \<or> c = 47 then lex (InString (c # acc)) cs
      else if c = 98 then lex (InString (8 # acc)) cs
      else if c = 102 then lex (InString (12 # acc)) cs
      else if c = 110 then lex (InString (10 # acc)) cs
      else if c = 114 then lex (InString (13 # acc)) cs
      else if c = 116 then lex (InString (9 # acc)) cs
      else if c = 117 then lex (InUnicode acc 0 0) cs
      else None)"
| "lex (InUnicode acc v k) [] = None"
| "lex (InUnicode acc v k) (c # cs) =
     (case hex_value c of
        None \<Rightarrow> None
      | Some d \<Rightarrow>
          if k = 3 then lex (InString ((16 * v + d) # acc)) cs
          else lex (InUnicode acc (16 * v + d) (Suc k)) cs)"
| "lex (InNumber acc) [] = (if json_number (rev acc) then Some [TNumber (rev acc)] else None)"
| "lex (InNumber acc) (c # cs) =
     (if is_number_char c then lex (InNumber (c # acc)) cs
      else if json_number (rev acc) then emit (TNumber (rev acc)) (lex Ground (c # cs))
      else None)"
| "lex (InWord acc) [] = Some [TWord (rev acc)]"
| "lex (InWord acc) (c # cs) =
     (if is_lower c then lex (InWord (c # acc)) cs
      else emit (TWord (rev acc)) (lex Ground (c # cs)))"
  by pat_completeness auto
termination
  by (relation "measure (\<lambda>(m, cs). 2 * length cs + (if m = Ground then 0 else 1))") auto

text \<open>
  The parser: a stack of the containers that are still open, innermost first. An array
  keeps its elements in reverse, an object its members and the key whose value is being
  read. A repeated key replaces the earlier value (\<open>set_property\<close>).
\<close>

datatype 'n frame =
    ArrayFrame "'n jsval list"
  | ObjectFrame "'n entries" js_string

datatype 'n pstate =
    PValue "'n frame list"
  | PArrayFirst "'n frame list"
  | PArrayNext "'n jsval list" "'n frame list"
  | PObjectFirst "'n frame list"
  | PObjectKey "'n entries" "'n frame list"
  | PObjectColon "'n entries" js_string "'n frame list"
  | PObjectNext "'n entries" "'n frame list"
  | PDone "'n jsval"

fun deliver :: "'n jsval \<Rightarrow> 'n frame list \<Rightarrow> 'n pstate" where
  "deliver v [] = PDone v"
| "deliver v (ArrayFrame vs # fs) = PArrayNext (v # vs) fs"
| "deliver v (ObjectFrame ms k # fs) = PObjectNext (set_property k v ms) fs"

text \<open>A token where a value starts. The second argument converts a number's text.\<close>

fun value_step :: "(js_string \<Rightarrow> 'n) \<Rightarrow> 'n frame list \<Rightarrow> token \<Rightarrow> 'n pstate option" where
  "value_step stn fs LBracket = Some (PArrayFirst fs)"
| "value_step stn fs LBrace = Some (PObjectFirst fs)"
| "value_step stn fs (TString s) = Some (deliver (String s) fs)"
| "value_step stn fs (TNumber l) = Some (deliver (Number (stn l)) fs)"
| "value_step stn fs (TWord w) =
     (if w = str ''true'' then Some (deliver (Bool True) fs)
      else if w = str ''false'' then Some (deliver (Bool False) fs)
      else if w = str ''null'' then Some (deliver Null fs)
      else None)"
| "value_step stn fs t = None"

fun step :: "(js_string \<Rightarrow> 'n) \<Rightarrow> 'n pstate \<Rightarrow> token \<Rightarrow> 'n pstate option" where
  "step stn (PValue fs) t = value_step stn fs t"
| "step stn (PArrayFirst fs) t =
     (if t = RBracket then Some (deliver (Array []) fs)
      else value_step stn (ArrayFrame [] # fs) t)"
| "step stn (PArrayNext vs fs) t =
     (if t = Comma then Some (PValue (ArrayFrame vs # fs))
      else if t = RBracket then Some (deliver (Array (rev vs)) fs)
      else None)"
| "step stn (PObjectFirst fs) t =
     (case t of
        RBrace \<Rightarrow> Some (deliver (Object []) fs)
      | TString k \<Rightarrow> Some (PObjectColon [] k fs)
      | _ \<Rightarrow> None)"
| "step stn (PObjectKey ms fs) t =
     (case t of TString k \<Rightarrow> Some (PObjectColon ms k fs) | _ \<Rightarrow> None)"
| "step stn (PObjectColon ms k fs) t =
     (if t = Colon then Some (PValue (ObjectFrame ms k # fs)) else None)"
| "step stn (PObjectNext ms fs) t =
     (if t = Comma then Some (PObjectKey ms fs)
      else if t = RBrace then Some (deliver (Object ms) fs)
      else None)"
| "step stn (PDone v) t = None"

fun run :: "(js_string \<Rightarrow> 'n) \<Rightarrow> 'n pstate \<Rightarrow> token list \<Rightarrow> 'n jsval option" where
  "run stn st [] = (case st of PDone v \<Rightarrow> Some v | _ \<Rightarrow> None)"
| "run stn st (t # ts) =
     (case step stn st t of None \<Rightarrow> None | Some st' \<Rightarrow> run stn st' ts)"

text \<open>The value a JSON text denotes; \<open>None\<close> when the text is not JSON.\<close>

definition json_text :: "(js_string \<Rightarrow> 'n) \<Rightarrow> js_string \<Rightarrow> 'n jsval option" where
  "json_text stn text =
     (case lex Ground text of None \<Rightarrow> None | Some ts \<Rightarrow> run stn (PValue []) ts)"

text \<open>
  The reviver walk. A reviver is a function of the key and the value already walked; a
  property for which it returns \<^verbatim>\<open>undefined\<close> is deleted from its object, and a
  deleted array element reads as \<^verbatim>\<open>undefined\<close>. The walk ends with the call for the
  root, under the empty key.
\<close>

type_synonym 'n reviver = "js_string \<Rightarrow> 'n jsval \<Rightarrow> 'n jsval"

fun internalize :: "'n reviver \<Rightarrow> js_string \<Rightarrow> 'n jsval \<Rightarrow> 'n jsval"
  and internalize_elements :: "'n reviver \<Rightarrow> nat \<Rightarrow> 'n jsval list \<Rightarrow> 'n jsval list"
  and internalize_properties :: "'n reviver \<Rightarrow> 'n entries \<Rightarrow> 'n entries" where
  "internalize rv name (Array xs) = rv name (Array (internalize_elements rv 0 xs))"
| "internalize rv name (Object ps) = rv name (Object (internalize_properties rv ps))"
| "internalize rv name v = rv name v"
| "internalize_elements rv i [] = []"
| "internalize_elements rv i (x # xs) =
     internalize rv (toString_radix 10 i) x # internalize_elements rv (Suc i) xs"
| "internalize_properties rv [] = []"
| "internalize_properties rv ((k, v) # ps) =
     (let newElement = internalize rv k v
      in if newElement = Undefined then internalize_properties rv ps
         else (k, newElement) # internalize_properties rv ps)"

datatype js_error =
    TypeError
  | SyntaxError
  | Non2xxStatusCodeError int
  | EngineError js_string

definition JSON_parse ::
  "(js_string \<Rightarrow> 'n) \<Rightarrow> js_string \<Rightarrow> 'n reviver option \<Rightarrow> js_error + 'n jsval" where
  "JSON_parse stn text reviver =
     (case json_text stn text of
        None \<Rightarrow> Inl SyntaxError
      | Some unfiltered \<Rightarrow>
          (case reviver of
             None \<Rightarrow> Inr unfiltered
           | Some rv \<Rightarrow> Inr (internalize rv [] unfiltered)))"

section \<open>The callback of createCallHTTPEndpoint\<close>

text \<open>
  What the runtime supplies: the \<^verbatim>\<open>URL\<close> constructor (it throws on a string it cannot
  resolve), the conversions between numbers and their text, \<^verbatim>\<open>JSON.stringify\<close> and
  \<^verbatim>\<open>axios.create\<close>. They are parameters of the model. The \<^verbatim>\<open>URL\<close> object is read
  through \<^verbatim>\<open>origin\<close> and \<^verbatim>\<open>href\<close> only.
\<close>

record url_object =
  origin :: js_string
  href :: js_string

text \<open>The argument of the callback: \<^verbatim>\<open>{method, url, query, body, headers}\<close>.\<close>

record 'n request_descriptor =
  "method" :: js_string
  url :: js_string
  query :: "'n entries option"
  body :: "'n jsval"
  headers :: "'n entries option"

text \<open>
  The object handed to the Axios instance; an optional key that the source leaves out is
  \<open>None\<close>. \<^verbatim>\<open>new AxiosHeaders(..)\<close> and \<^verbatim>\<open>new URLSearchParams(..)\<close> wrap the
  header object and the list of pairs; the model hands over what they wrap.
\<close>

record 'n axios_request =
  request_method :: js_string
  request_url :: js_string
  request_headers :: "'n entries option"
  request_params :: "(js_string \<times> js_string) list option"
  request_data :: "js_string option"
  request_responseType :: js_string

text \<open>What the callback reads of the response: \<^verbatim>\<open>{status, headers, data}\<close>.\<close>

record 'n axios_response =
  status :: int
  response_headers :: "'n entries"
  response_data :: js_string

text \<open>The result of the callback: \<^verbatim>\<open>{headers, body}\<close>.\<close>

record 'n http_result =
  result_headers :: "'n entries"
  result_body :: "'n jsval"

text \<open>An Axios instance sends one request; it rejects with an error of its own or
  resolves with a response.\<close>

type_synonym 'n axios_instance = "'n axios_request \<Rightarrow> js_error + 'n axios_response"

text \<open>The \<^verbatim>\<open>config\<close> of the options: \<^verbatim>\<open>baseURL\<close> and the other creation defaults.\<close>

record 'n axios_defaults =
  baseURL :: js_string
  other_defaults :: "'n entries"

record 'n runtime =
  URL_new :: "js_string \<Rightarrow> js_string \<Rightarrow> js_error + url_object"
  Number_toString :: "'n \<Rightarrow> js_string"
  StringToNumber :: "js_string \<Rightarrow> 'n"
  JSON_stringify :: "'n jsval \<Rightarrow> js_string"
  axios_create :: "'n axios_defaults \<Rightarrow> 'n axios_instance"

definition DUMMY_ORIGIN :: js_string where
  "DUMMY_ORIGIN = str ''ftp://__dummy__''"

text \<open>
  Lines 41 to 64 of client.ts: the url check and the object the instance is called with.
  Code unit 47 is the forward slash.
\<close>

definition request_config :: "'n runtime \<Rightarrow> 'n request_descriptor \<Rightarrow> js_error + 'n axios_request" where
  "request_config rt req =
     (case URL_new rt (url req) DUMMY_ORIGIN of
        Inl e \<Rightarrow> Inl e
      | Inr urlObject \<Rightarrow>
          (let url' = (if origin urlObject \<noteq> DUMMY_ORIGIN \<or> href urlObject = url req
                       then 47 # url req else url req)
           in Inr \<lparr> request_method = method req,
                    request_url = ensureNoQueryOrFragment url',
                    request_headers =
                      (case headers req of
                         None \<Rightarrow> None
                       | Some requestHeaders \<Rightarrow>
                           getOutgoingHeaders (Number_toString rt) (Some requestHeaders)),
                    request_params =
                      (case query req of
                         None \<Rightarrow> None
                       | Some q \<Rightarrow> Some (getURLSearchParams (Number_toString rt) q)),
                    request_data =
                      (if body req = Undefined then None
                       else Some (JSON_stringify rt (body req))),
                    request_responseType = str ''text'' \<rparr>))"

text \<open>
  Lines 66 to 78: the status check and the result. The first argument is what awaiting the
  instance gave: its rejection, which the callback does not catch, or its response.
\<close>

definition response_result ::
  "'n runtime \<Rightarrow> 'n reviver option \<Rightarrow> js_error + 'n axios_response \<Rightarrow> js_error + 'n http_result" where
  "response_result rt reviver awaited =
     (case awaited of
        Inl e \<Rightarrow> Inl e
      | Inr response \<Rightarrow>
          if status response < 200 \<or> status response \<ge> 300
          then Inl (Non2xxStatusCodeError (status response))
          else (case JSON_parse (StringToNumber rt) (response_data response) reviver of
                  Inl e \<Rightarrow> Inl e
                | Inr b \<Rightarrow>
                    Inr \<lparr> result_headers =
                            fromEntries
                              (filter (\<lambda>(name, header). header \<noteq> Undefined \<and> header \<noteq> Null)
                                 (response_headers response)),
                          result_body = b \<rparr>))"

text \<open>The function that \<^verbatim>\<open>createCallHTTPEndpoint\<close> returns, closed over the instance and
  the reviver.\<close>

definition callHTTPEndpoint ::
  "'n runtime \<Rightarrow> 'n axios_instance \<Rightarrow> 'n reviver option \<Rightarrow> 'n request_descriptor
     \<Rightarrow> js_error + 'n http_result" where
  "callHTTPEndpoint rt instance reviver req =
     (case request_config rt req of
        Inl e \<Rightarrow> Inl e
      | Inr config \<Rightarrow> response_result rt reviver (instance config))"


text \<open>Modelled from the spec: the reviver that \<^verbatim>\<open>getJSONParseReviver\<close> gives when the
  flag is false. Any key literally equal to the prototype-link property name is dropped
  during parsing: the reviver returns \<^verbatim>\<open>undefined\<close> for it, and the value it was given
  for every other key.\<close>

definition stripProtoProperty :: "'n reviver" where
  "stripProtoProperty key value = (if key = str ''__proto__'' then Undefined else value)"

text \<open>Modelled from the spec: \<^verbatim>\<open>getJSONParseReviver\<close> of the package \<^verbatim>\<open>@ty-ras/data\<close>,
  which is not among the sources. With the flag false the prototype-link property is
  dropped; with the flag true it passes through unmodified: there is no reviver.\<close>

definition getJSONParseReviver :: "bool \<Rightarrow> 'n reviver option" where
  "getJSONParseReviver allowProtoProperty =
     (if allowProtoProperty then None else Some stripProtoProperty)"

section \<open>The factory\<close>

text \<open>
  \<^verbatim>\<open>HTTPEndpointCallerOptions\<close> has either \<^verbatim>\<open>config\<close> or \<^verbatim>\<open>instance\<close>, and the
  optional \<^verbatim>\<open>allowProtoProperty\<close>; \<^verbatim>\<open>HTTPEndpointCallerArgs\<close> is that or a string.
\<close>

datatype 'n HTTPEndpointCallerOptions =
    OptionsConfig "'n axios_defaults" "bool option"
  | OptionsInstance "'n axios_instance" "bool option"

datatype 'n HTTPEndpointCallerArgs =
    ArgsString js_string
  | ArgsOptions "'n HTTPEndpointCallerOptions"

fun allowProtoProperty :: "'n HTTPEndpointCallerOptions \<Rightarrow> bool option" where
  "allowProtoProperty (OptionsConfig config allow) = allow"
| "allowProtoProperty (OptionsInstance instance allow) = allow"

text \<open>Lines 26 to 29: \<^verbatim>\<open>args\<close>.\<close>

fun caller_options :: "'n HTTPEndpointCallerArgs \<Rightarrow> 'n HTTPEndpointCallerOptions" where
  "caller_options (ArgsString argsOrURL) =
     OptionsConfig \<lparr> baseURL = argsOrURL, other_defaults = [] \<rparr> None"
| "caller_options (ArgsOptions argsOrURL) = argsOrURL"

text \<open>Lines 30 and 31: \<^verbatim>\<open>instance\<close>.\<close>

fun caller_instance :: "'n runtime \<Rightarrow> 'n HTTPEndpointCallerOptions \<Rightarrow> 'n axios_instance" where
  "caller_instance rt (OptionsConfig config allow) = axios_create rt config"
| "caller_instance rt (OptionsInstance instance allow) = instance"

definition createCallHTTPEndpoint ::
  "'n runtime \<Rightarrow> 'n HTTPEndpointCallerArgs \<Rightarrow> 'n request_descriptor \<Rightarrow> js_error + 'n http_result" where
  "createCallHTTPEndpoint rt argsOrURL =
     (let args = caller_options argsOrURL;
          instance = caller_instance rt args;
          reviver = getJSONParseReviver (allowProtoProperty args = Some True)
      in callHTTPEndpoint rt instance reviver)"

section \<open>The engine\<close>

text \<open>
  Axios is not among the sources. Two of its rules decide where a request of the callback
  goes and whether its response comes back; they are modelled after axios 1.5.0, the
  version that the repository's tests name.
  \<^item> \<^verbatim>\<open>isAbsoluteURL\<close>: a url is absolute when it begins with a scheme and \<^verbatim>\<open>://\<close>, or
    with \<^verbatim>\<open>//\<close> (the pattern \<^verbatim>\<open>/^([a-z][a-z\d+\-.]*:)?\/\//i\<close>). The engine combines the
    url of a request with \<^verbatim>\<open>baseURL\<close> only when the url is not absolute; an absolute url
    is requested as it is.
  \<^item> \<^verbatim>\<open>settle\<close>: the instance resolves with the response when its status is 0, when
    there is no \<^verbatim>\<open>validateStatus\<close>, or when \<^verbatim>\<open>validateStatus\<close> accepts the status;
    otherwise it rejects with an error of its own, whose message is
    \<^verbatim>\<open>Request failed with status code <N>\<close>. The default \<^verbatim>\<open>validateStatus\<close> accepts the
    statuses from 200 to 299. The callback puts no \<^verbatim>\<open>validateStatus\<close> into its
    request, so the one of the instance decides.
\<close>

definition is_letter :: "nat \<Rightarrow> bool" where
  "is_letter c = ((97 \<le> c \<and> c \<le> 122) \<or> (65 \<le> c \<and> c \<le> 90))"

definition is_scheme_char :: "nat \<Rightarrow> bool" where
  "is_scheme_char c = (is_letter c \<or> is_digit c \<or> c = 43 \<or> c = 45 \<or> c = 46)"

definition axios_isAbsoluteURL :: "js_string \<Rightarrow> bool" where
  "axios_isAbsoluteURL u =
     (take 2 u = str ''//'' \<or>
      (case u of
         [] \<Rightarrow> False
       | c # cs \<Rightarrow> is_letter c \<and> take 3 (dropWhile is_scheme_char cs) = str ''://''))"

definition axios_default_validateStatus :: "int \<Rightarrow> bool" where
  "axios_default_validateStatus s = (s \<ge> 200 \<and> s < 300)"

definition axios_settle ::
  "(int \<Rightarrow> bool) option \<Rightarrow> 'n axios_response \<Rightarrow> js_error + 'n axios_response" where
  "axios_settle validateStatus response =
     (if status response = 0
         \<or> (case validateStatus of None \<Rightarrow> True | Some accepts \<Rightarrow> accepts (status response))
      then Inr response
      else Inl (EngineError
                  (str ''Request failed with status code '' @ toString_int (status response))))"

text \<open>An instance: what sends the request (it fails, or it receives a response), and the
  \<^verbatim>\<open>validateStatus\<close> the instance was created with.\<close>

definition axios_instance_of ::
  "(int \<Rightarrow> bool) option \<Rightarrow> ('n axios_request \<Rightarrow> js_error + 'n axios_response)
     \<Rightarrow> 'n axios_instance" where
  "axios_instance_of validateStatus adapter config =
     (case adapter config of
        Inl e \<Rightarrow> Inl e
      | Inr response \<Rightarrow> axios_settle validateStatus response)"

section \<open>Notions the properties are stated with\<close>

text \<open>
  A value as the spec describes the decoded body under the guard: every property named
  \<^verbatim>\<open>__proto__\<close> removed, at every depth, and nothing else changed.
\<close>

fun without_proto :: "'n jsval \<Rightarrow> 'n jsval" where
  "without_proto (Array xs) = Array (map without_proto xs)"
| "without_proto (Object ps) =
     Object (map (\<lambda>(k, v). (k, without_proto v)) (filter (\<lambda>(k, v). k \<noteq> str ''__proto__'') ps))"
| "without_proto v = v"

text \<open>Some object inside the value, or the value itself, has a property named
  \<^verbatim>\<open>__proto__\<close>.\<close>

fun has_proto_key :: "'n jsval \<Rightarrow> bool" where
  "has_proto_key (Array xs) = list_ex has_proto_key xs"
| "has_proto_key (Object ps) = list_ex (\<lambda>(k, v). k = str ''__proto__'' \<or> has_proto_key v) ps"
| "has_proto_key v = False"

text \<open>A value that a JSON text can denote: \<^verbatim>\<open>undefined\<close> occurs nowhere in it.\<close>

fun json_value :: "'n jsval \<Rightarrow> bool" where
  "json_value Undefined = False"
| "json_value (Array xs) = list_all json_value xs"
| "json_value (Object ps) = list_all (\<lambda>(k, v). json_value v) ps"
| "json_value v = True"

fun json_frame :: "'n frame \<Rightarrow> bool" where
  "json_frame (ArrayFrame vs) = list_all json_value vs"
| "json_frame (ObjectFrame ms k) = list_all (\<lambda>(k, v). json_value v) ms"

fun json_state :: "'n pstate \<Rightarrow> bool" where
  "json_state (PValue fs) = list_all json_frame fs"
| "json_state (PArrayFirst fs) = list_all json_frame fs"
| "json_state (PArrayNext vs fs) = (list_all json_value vs \<and> list_all json_frame fs)"
| "json_state (PObjectFirst fs) = list_all json_frame fs"
| "json_state (PObjectKey ms fs) = (list_all (\<lambda>(k, v). json_value v) ms \<and> list_all json_frame fs)"
| "json_state (PObjectColon ms k fs) =
     (list_all (\<lambda>(k, v). json_value v) ms \<and> list_all json_frame fs)"
| "json_state (PObjectNext ms fs) = (list_all (\<lambda>(k, v). json_value v) ms \<and> list_all json_frame fs)"
| "json_state (PDone v) = json_value v"

section \<open>A runtime for the examples\<close>

text \<open>
  The examples keep a number as its decimal text and send no body. The server answers
  every request with one response (\<open>answering\<close>), and \<^verbatim>\<open>axios.create\<close> gives an instance
  with the default \<^verbatim>\<open>validateStatus\<close>. The \<^verbatim>\<open>URL\<close> constructor of the examples knows
  the inputs they use, resolved against the dummy origin as the WHATWG URL standard
  resolves them, and throws on every other.
\<close>

definition answering :: "'n axios_response \<Rightarrow> 'n axios_instance" where
  "answering response config = Inr response"

text \<open>An instance that shows the url it is called with: it fails with that url as its
  error.\<close>

definition showing_url :: "'n axios_instance" where
  "showing_url config = Inl (EngineError (request_url config))"

definition example_resolutions :: "(js_string \<times> url_object) list" where
  "example_resolutions =
     [(str ''http://example.com'',
         \<lparr> origin = str ''http://example.com'', href = str ''http://example.com/'' \<rparr>),
      (str ''ftp://__dummy__/hello'',
         \<lparr> origin = str ''ftp://__dummy__'', href = str ''ftp://__dummy__/hello'' \<rparr>),
      (str ''/hello'',
         \<lparr> origin = str ''ftp://__dummy__'', href = str ''ftp://__dummy__/hello'' \<rparr>),
      (str ''/hello/?injected-query-#-and-fragment/'',
         \<lparr> origin = str ''ftp://__dummy__'',
           href = str ''ftp://__dummy__/hello/?injected-query-#-and-fragment/'' \<rparr>),
      (str ''//localhost:8081/x'',
         \<lparr> origin = str ''ftp://localhost:8081'', href = str ''ftp://localhost:8081/x'' \<rparr>),
      (str ''ftp://__dummy__'',
         \<lparr> origin = str ''ftp://__dummy__'', href = str ''ftp://__dummy__/'' \<rparr>)]"

definition example_URL_new :: "js_string \<Rightarrow> js_string \<Rightarrow> js_error + url_object" where
  "example_URL_new u base =
     (if base = DUMMY_ORIGIN
      then (case map_of example_resolutions u of None \<Rightarrow> Inl TypeError | Some r \<Rightarrow> Inr r)
      else Inl TypeError)"

definition example_runtime :: "js_string axios_response \<Rightarrow> js_string runtime" where
  "example_runtime response =
     \<lparr> URL_new = example_URL_new,
       Number_toString = id,
       StringToNumber = id,
       JSON_stringify = (\<lambda>v. []),
       axios_create =
         (\<lambda>defaults. axios_instance_of (Some axios_default_validateStatus)
                       (answering response)) \<rparr>"

definition example_request :: "js_string \<Rightarrow> js_string request_descriptor" where
  "example_request u =
     \<lparr> method = str ''GET'', url = u, query = None, body = Undefined, headers = None \<rparr>"

definition example_response :: "int \<Rightarrow> js_string \<Rightarrow> js_string axios_response" where
  "example_response code text =
     \<lparr> status = code,
       response_headers =
         [(str ''connection'', String (str ''close'')), (str ''x-nothing'', Null),
          (str ''x-missing'', Undefined)],
       response_data = text \<rparr>"

text \<open>A body text with the prototype-link key at two depths.\<close>

definition polluted_text :: js_string where
  \<open>polluted_text = str ''{"__proto__": {"x": 1}, "a": [{"__proto__": 2, "b": 3}]}''\<close>

section \<open>Auxiliary facts\<close>

lemma escape_char_63: "escape_char 63 = str ''%3F''"
  by (simp add: escape_char_def str_def toString_radix.simps toUpperCase_def digit_def)

lemma escape_char_35: "escape_char 35 = str ''%23''"
  by (simp add: escape_char_def str_def toString_radix.simps toUpperCase_def digit_def)

lemma ensure_Nil: "ensureNoQueryOrFragment [] = []"
  by (simp add: ensureNoQueryOrFragment_def)

lemma ensure_Cons:
  "ensureNoQueryOrFragment (c # p) =
     (if c = 63 then str ''%3F'' else if c = 35 then str ''%23'' else [c])
       @ ensureNoQueryOrFragment p"
  by (simp add: ensureNoQueryOrFragment_def escape_char_63 escape_char_35)

lemma ensure_clean:
  "63 \<notin> set (ensureNoQueryOrFragment p) \<and> 35 \<notin> set (ensureNoQueryOrFragment p)"
  by (induction p) (simp_all add: ensure_Nil ensure_Cons str_def)

lemma set_property_fresh: "k \<notin> fst ` set ps \<Longrightarrow> set_property k v ps = ps @ [(k, v)]"
  by (induction ps) auto

lemma foldl_set_property:
  "distinct (map fst (acc @ es)) \<Longrightarrow>
   foldl (\<lambda>obj (k, v). set_property k v obj) acc es = acc @ es"
proof (induction es arbitrary: acc)
  case Nil
  then show ?case by simp
next
  case (Cons e es)
  obtain k v where e: "e = (k, v)" by (cases e)
  from Cons.prems have fresh: "k \<notin> fst ` set acc" by (auto simp: e)
  from Cons.prems have "distinct (map fst ((acc @ [(k, v)]) @ es))" by (auto simp: e)
  from Cons.IH [OF this] show ?case by (simp add: e set_property_fresh [OF fresh])
qed

lemma fromEntries_distinct: "distinct (map fst es) \<Longrightarrow> fromEntries es = es"
  using foldl_set_property [of "[]" es] by (simp add: fromEntries_def)

lemma distinct_keys_filter: "distinct (map fst es) \<Longrightarrow> distinct (map fst (filter P es))"
  by (induction es) auto

lemma distinct_keys_map:
  "distinct (map fst es) \<Longrightarrow> distinct (map fst (map (\<lambda>(k, v). (k, f v)) es))"
  by (simp add: case_prod_unfold comp_def)

lemma json_set_property:
  "list_all (\<lambda>(k, v). json_value v) ms \<Longrightarrow> json_value v \<Longrightarrow>
   list_all (\<lambda>(k, v). json_value v) (set_property k v ms)"
  by (induction ms) auto

lemma json_deliver: "json_value v \<Longrightarrow> list_all json_frame fs \<Longrightarrow> json_state (deliver v fs)"
  by (induction v fs rule: deliver.induct) (simp_all add: json_set_property)

lemma json_value_step:
  "list_all json_frame fs \<Longrightarrow> value_step stn fs t = Some st \<Longrightarrow> json_state st"
  by (cases t) (auto simp: json_deliver split: if_splits)

lemma json_step: "json_state st \<Longrightarrow> step stn st t = Some st' \<Longrightarrow> json_state st'"
  by (cases st)
    (auto simp: json_deliver list_all_iff dest!: json_value_step [rotated]
       split: if_splits token.splits)

lemma json_run: "json_state st \<Longrightarrow> run stn st ts = Some v \<Longrightarrow> json_value v"
  by (induction ts arbitrary: st) (auto split: pstate.splits option.splits dest: json_step)

lemma json_text_value: "json_text stn text = Some v \<Longrightarrow> json_value v"
  by (auto simp: json_text_def split: option.splits dest: json_run [rotated])

lemma decimal_digits: "c \<in> set (toString_radix 10 n) \<Longrightarrow> 48 \<le> c \<and> c \<le> 57"
proof (induction "10 :: nat" n rule: toString_radix.induct)
  case (1 n)
  show ?case
  proof (cases "n < 10")
    case True
    with "1.prems" show ?thesis by (simp add: toString_radix.simps [of 10 n] digit_def)
  next
    case False
    have "n mod 10 < 10" by simp
    with False "1.prems" "1.hyps" show ?thesis
      by (auto simp: toString_radix.simps [of 10 n] digit_def)
  qed
qed

text \<open>An array index is never the key \<^verbatim>\<open>__proto__\<close>: code unit 95 is the underscore.\<close>

lemma index_not_proto: "toString_radix 10 i \<noteq> str ''__proto__''"
proof
  assume "toString_radix 10 i = str ''__proto__''"
  then have "95 \<in> set (toString_radix 10 i)" by (simp add: str_def)
  from decimal_digits [OF this] show False by simp
qed

lemma internalize_strip_proto: "internalize stripProtoProperty (str ''__proto__'') v = Undefined"
  by (cases v) (simp_all add: stripProtoProperty_def)

lemma internalize_no_proto:
  fixes rv :: "'n reviver"
  shows "rv = stripProtoProperty \<Longrightarrow> \<not> has_proto_key (internalize rv name v)"
    and "rv = stripProtoProperty \<Longrightarrow>
      list_all (\<lambda>x. \<not> has_proto_key x) (internalize_elements rv i xs)"
    and "rv = stripProtoProperty \<Longrightarrow>
      list_all (\<lambda>(k, x). k \<noteq> str ''__proto__'' \<and> \<not> has_proto_key x)
        (internalize_properties rv ps)"
proof (induction rv name v and rv i xs and rv ps
    rule: internalize_internalize_elements_internalize_properties.induct)
  case (1 rv name xs)
  then show ?case by (auto simp: stripProtoProperty_def list_ex_iff list_all_iff)
next
  case (2 rv name ps)
  then show ?case by (auto simp: stripProtoProperty_def list_ex_iff list_all_iff)
next
  case (7 rv k v ps)
  then show ?case using internalize_strip_proto [of v] by (auto simp: Let_def)
qed (simp_all add: stripProtoProperty_def)

lemma without_proto_defined: "json_value v \<Longrightarrow> without_proto v \<noteq> Undefined"
  by (cases v) simp_all

lemma internalize_without_proto:
  fixes rv :: "'n reviver"
  shows "rv = stripProtoProperty \<Longrightarrow> json_value v \<Longrightarrow>
     internalize rv name v = (if name = str ''__proto__'' then Undefined else without_proto v)"
    and "rv = stripProtoProperty \<Longrightarrow> list_all json_value xs \<Longrightarrow>
     internalize_elements rv i xs = map without_proto xs"
    and "rv = stripProtoProperty \<Longrightarrow> list_all (\<lambda>(k, v). json_value v) ps \<Longrightarrow>
     internalize_properties rv ps =
       map (\<lambda>(k, v). (k, without_proto v)) (filter (\<lambda>(k, v). k \<noteq> str ''__proto__'') ps)"
proof (induction rv name v and rv i xs and rv ps
    rule: internalize_internalize_elements_internalize_properties.induct)
  case (5 rv i x xs)
  then show ?case by (simp add: index_not_proto)
next
  case (7 rv k v ps)
  then show ?case by (auto simp: Let_def without_proto_defined)
qed (simp_all add: stripProtoProperty_def)

lemma proto_not_empty: "[] \<noteq> str ''__proto__''"
  by (simp add: str_def)

lemma JSON_parse_guarded:
  "JSON_parse stn text (getJSONParseReviver False) =
     (case json_text stn text of None \<Rightarrow> Inl SyntaxError | Some u \<Rightarrow> Inr (without_proto u))"
  using proto_not_empty
  by (auto simp: JSON_parse_def getJSONParseReviver_def internalize_without_proto(1)
      dest: json_text_value split: option.splits)

lemma JSON_parse_unguarded:
  "JSON_parse stn text (getJSONParseReviver True) =
     (case json_text stn text of None \<Rightarrow> Inl SyntaxError | Some u \<Rightarrow> Inr u)"
  by (simp add: JSON_parse_def getJSONParseReviver_def split: option.splits)

lemma without_proto_clean: "\<not> has_proto_key (without_proto v)"
  by (induction v rule: without_proto.induct) (auto simp: list_ex_iff)

text \<open>The empty text is not JSON: \<^verbatim>\<open>JSON.parse("")\<close> throws.\<close>

lemma json_text_empty: "json_text stn [] = None"
  by (simp add: json_text_def)

lemmas example_defs =
  example_runtime_def example_response_def example_request_def example_URL_new_def
  example_resolutions_def answering_def DUMMY_ORIGIN_def
  axios_instance_of_def axios_settle_def axios_default_validateStatus_def

section \<open>URL sanitization\<close>

text \<open>
  When the \<^verbatim>\<open>URL\<close> constructor resolves \<^verbatim>\<open>url\<close> against the dummy origin to an origin
  other than the dummy origin, or to an \<^verbatim>\<open>href\<close> equal to \<^verbatim>\<open>url\<close> itself, the callback
  calls the instance with a request whose url is \<^verbatim>\<open>url\<close> with a forward slash (code unit
  47) in front, escaped by \<^verbatim>\<open>ensureNoQueryOrFragment\<close>; the slash stays the first code
  unit.
\<close>

lemma absolute_url_is_slash_prefixed:
  assumes "URL_new rt (url req) DUMMY_ORIGIN = Inr urlObject"
    and "origin urlObject \<noteq> DUMMY_ORIGIN \<or> href urlObject = url req"
  shows "\<exists>config. request_config rt req = Inr config
           \<and> request_url config = ensureNoQueryOrFragment (47 # url req)
           \<and> request_url config = 47 # ensureNoQueryOrFragment (url req)
           \<and> callHTTPEndpoint rt instance reviver req
               = response_result rt reviver (instance config)"
  using assms by (auto simp: request_config_def callHTTPEndpoint_def ensure_Cons)

text \<open>
  C1. The claim is that a url which resolves to an origin other than the dummy origin, or
  to itself, is sent with a slash in front, so that the request goes to the configured
  base URL with the url as a literal path and never to another host. The url
  \<^verbatim>\<open>//localhost:8081/x\<close> resolves to \<^verbatim>\<open>ftp://localhost:8081/x\<close>, of an origin other than
  the dummy origin. The callback calls the instance with the url
  \<^verbatim>\<open>///localhost:8081/x\<close> (the instance \<open>showing_url\<close> shows it): it begins with
  \<^verbatim>\<open>//\<close>, so it is absolute for the engine, which requests it as it is and does not
  combine it with \<^verbatim>\<open>baseURL\<close>. The url \<^verbatim>\<open>http://example.com\<close> of the repository's test
  becomes \<^verbatim>\<open>/http://example.com\<close>, which is not absolute.
\<close>

theorem protocol_relative_url_stays_absolute:
  "URL_new (example_runtime (example_response 204 []))
       (url (example_request (str ''//localhost:8081/x''))) DUMMY_ORIGIN
     = Inr \<lparr> origin = str ''ftp://localhost:8081'', href = str ''ftp://localhost:8081/x'' \<rparr>
   \<and> str ''ftp://localhost:8081'' \<noteq> DUMMY_ORIGIN
   \<and> callHTTPEndpoint (example_runtime (example_response 204 [])) showing_url
       (getJSONParseReviver False) (example_request (str ''//localhost:8081/x''))
     = Inl (EngineError (str ''///localhost:8081/x''))
   \<and> axios_isAbsoluteURL (str ''///localhost:8081/x'')
   \<and> callHTTPEndpoint (example_runtime (example_response 204 [])) showing_url
       (getJSONParseReviver False) (example_request (str ''http://example.com''))
     = Inl (EngineError (str ''/http://example.com''))
   \<and> \<not> axios_isAbsoluteURL (str ''/http://example.com'')"
  by (simp add: callHTTPEndpoint_def request_config_def response_result_def showing_url_def
      ensure_Nil ensure_Cons example_defs axios_isAbsoluteURL_def is_letter_def str_def)

text \<open>
  The repository's test of the url check also sends \<^verbatim>\<open>ftp://__dummy__\<close> and expects the
  server to see \<^verbatim>\<open>/ftp://__dummy__\<close>. That url resolves to the \<^verbatim>\<open>href\<close>
  \<^verbatim>\<open>ftp://__dummy__/\<close> of the dummy origin, so neither part of the condition of line 42
  holds: the callback calls the instance with the url as it is, which is absolute.
\<close>

lemma dummy_origin_url_is_not_prefixed:
  "URL_new (example_runtime (example_response 204 []))
       (url (example_request (str ''ftp://__dummy__''))) DUMMY_ORIGIN
     = Inr \<lparr> origin = DUMMY_ORIGIN, href = str ''ftp://__dummy__/'' \<rparr>
   \<and> str ''ftp://__dummy__/'' \<noteq> str ''ftp://__dummy__''
   \<and> request_config (example_runtime (example_response 204 []))
       (example_request (str ''ftp://__dummy__''))
     = Inr \<lparr> request_method = str ''GET'', request_url = str ''ftp://__dummy__'',
             request_headers = None, request_params = None, request_data = None,
             request_responseType = str ''text'' \<rparr>
   \<and> axios_isAbsoluteURL (str ''ftp://__dummy__'')"
  by (simp add: request_config_def ensure_Nil ensure_Cons example_defs axios_isAbsoluteURL_def
      is_letter_def is_scheme_char_def is_digit_def str_def)

text \<open>
  C3. In the url the instance is called with, every \<^verbatim>\<open>?\<close> (code unit 63) of the
  possibly slash-prefixed \<^verbatim>\<open>url\<close> is replaced by \<^verbatim>\<open>%3F\<close> and every \<^verbatim>\<open>#\<close> (code
  unit 35) by \<^verbatim>\<open>%23\<close>, every other code unit is kept, and neither \<^verbatim>\<open>?\<close> nor
  \<^verbatim>\<open>#\<close> occurs in it.
\<close>

theorem no_query_or_fragment_reaches_engine:
  assumes "request_config rt req = Inr config"
  shows "63 \<notin> set (request_url config) \<and> 35 \<notin> set (request_url config)
       \<and> (\<exists>u. (u = url req \<or> u = 47 # url req)
            \<and> request_url config = ensureNoQueryOrFragment u
            \<and> request_url config =
                concat (map (\<lambda>c. if c = 63 then str ''%3F''
                                  else if c = 35 then str ''%23'' else [c]) u))
       \<and> callHTTPEndpoint rt instance reviver req
           = response_result rt reviver (instance config)"
proof -
  have eq: "ensureNoQueryOrFragment u =
      concat (map (\<lambda>c. if c = 63 then str ''%3F'' else if c = 35 then str ''%23'' else [c]) u)"
    for u
    by (induction u) (simp_all add: ensure_Nil ensure_Cons)
  from assms show ?thesis
    using ensure_clean eq
    by (auto simp: request_config_def callHTTPEndpoint_def Let_def split: sum.splits if_splits)
qed

theorem no_query_or_fragment_reaches_engine_witness:
  "request_config (example_runtime (example_response 204 []))
       (example_request (str ''/hello/?injected-query-#-and-fragment/''))
     = Inr \<lparr> request_method = str ''GET'',
             request_url = str ''/hello/%3Finjected-query-%23-and-fragment/'',
             request_headers = None, request_params = None, request_data = None,
             request_responseType = str ''text'' \<rparr>
   \<and> 63 \<notin> set (str ''/hello/%3Finjected-query-%23-and-fragment/'')
   \<and> 35 \<notin> set (str ''/hello/%3Finjected-query-%23-and-fragment/'')"
proof -
  let ?rt = "example_runtime (example_response 204 [])"
  let ?req = "example_request (str ''/hello/?injected-query-#-and-fragment/'')"
  let ?config = "\<lparr> request_method = str ''GET'',
             request_url = str ''/hello/%3Finjected-query-%23-and-fragment/'',
             request_headers = None, request_params = None, request_data = None,
             request_responseType = str ''text'' \<rparr> :: js_string axios_request"
  have h: "request_config ?rt ?req = Inr ?config"
    by (simp add: request_config_def example_defs str_def ensure_Nil ensure_Cons)
  from no_query_or_fragment_reaches_engine [OF h, of "answering (example_response 204 [])" None]
  show ?thesis using h by simp
qed

section \<open>Status gating\<close>




text \<open>
  An instance with the default \<^verbatim>\<open>validateStatus\<close>, as the factory creates it from a
  string or from \<^verbatim>\<open>{baseURL}\<close>, rejects a response with status 404 by itself. The
  callback passes that rejection on: line 66 is not reached, and the error is the
  engine's, not \<^verbatim>\<open>Non2xxStatusCodeError\<close>, which the repository's test of a non-2xx
  status expects from such a callback.
\<close>

lemma default_instance_rejects_non_2xx:
  "createCallHTTPEndpoint (example_runtime (example_response 404 []))
        (ArgsString (str ''http://localhost:8080'')) (example_request (str ''/hello''))
     = Inl (EngineError (str ''Request failed with status code 404''))"
  by (simp add: createCallHTTPEndpoint_def callHTTPEndpoint_def request_config_def
      response_result_def ensureNoQueryOrFragment_def example_defs str_def
      toString_int_def toString_radix.simps digit_def)

section \<open>The empty body\<close>

text \<open>No response with an empty body text gives a result, whatever the runtime, the
  reviver and the status.\<close>

lemma empty_body_gives_no_result:
  "response_data response = [] \<Longrightarrow> response_result rt reviver (Inr response) \<noteq> Inr result"
  by (simp add: response_result_def JSON_parse_def json_text_empty)

text \<open>
  C4. The claim is that a 2xx response with an empty body text gives a result whose body
  is \<^verbatim>\<open>undefined\<close>. The callback hands the text to \<^verbatim>\<open>JSON.parse\<close> as it is: for the
  response with status 204 and the empty text it rejects with \<^verbatim>\<open>SyntaxError\<close>.
\<close>

theorem empty_body_is_rejected:
  "200 \<le> status (example_response 204 [])
   \<and> status (example_response 204 []) < 300
   \<and> response_data (example_response 204 []) = []
   \<and> createCallHTTPEndpoint (example_runtime (example_response 204 []))
        (ArgsString (str ''http://localhost:8080'')) (example_request (str ''/hello''))
       = Inl SyntaxError"
  by (simp add: createCallHTTPEndpoint_def callHTTPEndpoint_def request_config_def
      response_result_def JSON_parse_def json_text_empty
      ensureNoQueryOrFragment_def example_defs str_def)

section \<open>The prototype-pollution guard\<close>

text \<open>
  C5. The callback the factory returns is closed over the reviver, which the factory
  derives once from \<^verbatim>\<open>allowProtoProperty === true\<close>. Whenever that callback resolves,
  the body text of the response denotes a value \<open>u\<close>; with \<^verbatim>\<open>allowProtoProperty\<close>
  unset or false the body of the result is \<open>u\<close> with every property named
  \<^verbatim>\<open>__proto__\<close> removed at every depth and nothing else changed, so no such key is
  left in it; with \<^verbatim>\<open>allowProtoProperty\<close> true the body is \<open>u\<close> itself.
\<close>

theorem proto_guard:
  assumes "createCallHTTPEndpoint rt argsOrURL req = Inr result"
  shows "createCallHTTPEndpoint rt argsOrURL
           = callHTTPEndpoint rt (caller_instance rt (caller_options argsOrURL))
               (getJSONParseReviver (allowProtoProperty (caller_options argsOrURL) = Some True))
       \<and> (\<exists>config response u.
            request_config rt req = Inr config
          \<and> caller_instance rt (caller_options argsOrURL) config = Inr response
          \<and> json_text (StringToNumber rt) (response_data response) = Some u
          \<and> result_body result =
              (if allowProtoProperty (caller_options argsOrURL) = Some True then u
               else without_proto u)
          \<and> (allowProtoProperty (caller_options argsOrURL) \<noteq> Some True
               \<longrightarrow> \<not> has_proto_key (result_body result)))"
proof -
  let ?args = "caller_options argsOrURL"
  let ?allow = "allowProtoProperty ?args = Some True"
  have factory: "createCallHTTPEndpoint rt argsOrURL
      = callHTTPEndpoint rt (caller_instance rt ?args) (getJSONParseReviver ?allow)"
    by (simp add: createCallHTTPEndpoint_def Let_def)
  with assms have call:
    "callHTTPEndpoint rt (caller_instance rt ?args) (getJSONParseReviver ?allow) req = Inr result"
    by simp
  then obtain config where config: "request_config rt req = Inr config"
    and res: "response_result rt (getJSONParseReviver ?allow)
        (caller_instance rt ?args config) = Inr result"
    by (auto simp: callHTTPEndpoint_def split: sum.splits)
  from res obtain response where response: "caller_instance rt ?args config = Inr response"
    and parsed: "JSON_parse (StringToNumber rt) (response_data response)
        (getJSONParseReviver ?allow) = Inr (result_body result)"
    by (auto simp: response_result_def split: sum.splits if_splits)
  show ?thesis
  proof (cases ?allow)
    case True
    with parsed
    have "json_text (StringToNumber rt) (response_data response) = Some (result_body result)"
      by (auto simp: JSON_parse_unguarded split: option.splits)
    with True factory config response show ?thesis by auto
  next
    case False
    with parsed obtain u where "json_text (StringToNumber rt) (response_data response) = Some u"
      and "result_body result = without_proto u"
      by (auto simp: JSON_parse_guarded split: option.splits)
    with False factory config response show ?thesis
      using without_proto_clean [of u] by auto
  qed
qed

theorem proto_guard_witness:
  "createCallHTTPEndpoint (example_runtime (example_response 200 polluted_text))
       (ArgsString (str ''http://localhost:8080'')) (example_request (str ''/hello''))
     = Inr \<lparr> result_headers = [(str ''connection'', String (str ''close''))],
             result_body = Object [(str ''a'', Array [Object [(str ''b'', Number (str ''3''))]])] \<rparr>
   \<and> \<not> has_proto_key
         (Object [(str ''a'', Array [Object [(str ''b'', Number (str ''3''))]])] :: js_string jsval)
   \<and> createCallHTTPEndpoint (example_runtime (example_response 200 polluted_text))
       (ArgsOptions (OptionsConfig \<lparr> baseURL = str ''http://localhost:8080'', other_defaults = [] \<rparr>
          (Some True)))
       (example_request (str ''/hello''))
     = Inr \<lparr> result_headers = [(str ''connection'', String (str ''close''))],
             result_body =
               Object [(str ''__proto__'', Object [(str ''x'', Number (str ''1''))]),
                       (str ''a'', Array [Object [(str ''__proto__'', Number (str ''2'')),
                                                  (str ''b'', Number (str ''3''))]])] \<rparr>
   \<and> json_text id polluted_text
     = Some (Object [(str ''__proto__'', Object [(str ''x'', Number (str ''1''))]),
                       (str ''a'', Array [Object [(str ''__proto__'', Number (str ''2'')),
                                                  (str ''b'', Number (str ''3''))]])])"
proof -
  let ?rt = "example_runtime (example_response 200 polluted_text)"
  let ?req = "example_request (str ''/hello'')"
  let ?guarded = "ArgsString (str ''http://localhost:8080'') :: js_string HTTPEndpointCallerArgs"
  let ?allowed = "ArgsOptions (OptionsConfig
      \<lparr> baseURL = str ''http://localhost:8080'', other_defaults = [] \<rparr> (Some True))
      :: js_string HTTPEndpointCallerArgs"
  let ?clean = "Object [(str ''a'', Array [Object [(str ''b'', Number (str ''3''))]])]
      :: js_string jsval"
  let ?full = "Object [(str ''__proto__'', Object [(str ''x'', Number (str ''1''))]),
                       (str ''a'', Array [Object [(str ''__proto__'', Number (str ''2'')),
                                                  (str ''b'', Number (str ''3''))]])]
      :: js_string jsval"
  have h1: "createCallHTTPEndpoint ?rt ?guarded ?req
      = Inr \<lparr> result_headers = [(str ''connection'', String (str ''close''))],
              result_body = ?clean \<rparr>"
    by code_simp
  have h2: "createCallHTTPEndpoint ?rt ?allowed ?req
      = Inr \<lparr> result_headers = [(str ''connection'', String (str ''close''))],
              result_body = ?full \<rparr>"
    by code_simp
  have rt: "StringToNumber ?rt = id"
    by (simp add: example_runtime_def)
  from proto_guard [OF h1] have c1: "\<not> has_proto_key ?clean"
    by auto
  from proto_guard [OF h2] have c2: "json_text id polluted_text = Some ?full"
    by (auto simp: rt example_defs)
  from h1 h2 c1 c2 show ?thesis by simp
qed

section \<open>Query serialization\<close>

lemma getURLSearchParams_Nil: "getURLSearchParams nts [] = []"
  by (simp add: getURLSearchParams_def)

lemma getURLSearchParams_Cons:
  "getURLSearchParams nts ((qKey, qValue) # q) =
     (if qValue = Undefined then []
      else case qValue of Array xs \<Rightarrow> map (\<lambda>value. (qKey, ToString nts value)) xs
           | _ \<Rightarrow> [(qKey, ToString nts qValue)])
     @ getURLSearchParams nts q"
  by (simp add: getURLSearchParams_def)

lemma getURLSearchParams_append:
  "getURLSearchParams nts (q1 @ q2) = getURLSearchParams nts q1 @ getURLSearchParams nts q2"
  by (simp add: getURLSearchParams_def)

lemma getURLSearchParams_key:
  "(k, s) \<in> set (getURLSearchParams nts q) \<Longrightarrow> k \<in> fst ` set q"
proof (induction q)
  case Nil
  then show ?case by (simp add: getURLSearchParams_Nil)
next
  case (Cons e q)
  obtain qKey qValue where e: "e = (qKey, qValue)" by (cases e)
  from Cons show ?case
    by (cases qValue) (auto simp: e getURLSearchParams_Cons)
qed

lemma getURLSearchParams_keys:
  "k \<notin> fst ` set q \<Longrightarrow> filter (\<lambda>(key, value). key = k) (getURLSearchParams nts q) = []"
  by (auto simp: filter_empty_conv dest: getURLSearchParams_key)

text \<open>
  C6. For a query mapping (its entries have distinct keys), the values that
  \<^verbatim>\<open>getURLSearchParams\<close> emits under a key \<open>k\<close>, in the order of emission, are: none
  when the mapping has no entry for \<open>k\<close> or its value is \<^verbatim>\<open>undefined\<close>; the string
  conversions of the elements, one for each element and in array order, when the value is
  an array; the string conversion of the value alone in every other case.
\<close>

theorem query_serialization:
  assumes "distinct (map fst q)"
  shows "map snd (filter (\<lambda>(key, value). key = k) (getURLSearchParams nts q)) =
     (case map_of q k of
        None \<Rightarrow> []
      | Some Undefined \<Rightarrow> []
      | Some (Array xs) \<Rightarrow> map (ToString nts) xs
      | Some qValue \<Rightarrow> [ToString nts qValue])"
  using assms
proof (induction q)
  case Nil
  then show ?case by (simp add: getURLSearchParams_Nil)
next
  case (Cons e q)
  obtain qKey qValue where e: "e = (qKey, qValue)" by (cases e)
  show ?case
  proof (cases "qKey = k")
    case True
    with Cons.prems have "k \<notin> fst ` set q" by (auto simp: e)
    from getURLSearchParams_keys [OF this] True show ?thesis
      by (cases qValue) (simp_all add: e getURLSearchParams_Cons comp_def)
  next
    case False
    with Cons show ?thesis
      by (cases qValue) (simp_all add: e getURLSearchParams_Cons)
  qed
qed


theorem query_serialization_witness:
  "distinct (map fst [(str ''a'', String (str ''1'')), (str ''u'', Undefined),
                      (str ''b'', Array [String (str ''2''), String (str ''3'')])])
   \<and> map snd (filter (\<lambda>(key, value). key = str ''b'')
        (getURLSearchParams id
           [(str ''a'', String (str ''1'')), (str ''u'', Undefined),
            (str ''b'', Array [String (str ''2''), String (str ''3'')])]))
       = [str ''2'', str ''3'']
   \<and> getURLSearchParams id
           [(str ''a'', String (str ''1'')), (str ''u'', Undefined),
            (str ''b'', Array [String (str ''2''), String (str ''3'')])]
       = [(str ''a'', str ''1''), (str ''b'', str ''2''), (str ''b'', str ''3'')]"
proof -
  let ?q = "[(str ''a'', String (str ''1'')), (str ''u'', Undefined),
             (str ''b'', Array [String (str ''2''), String (str ''3'')])]
            :: js_string entries"
  have d: "distinct (map fst ?q)"
    by (simp add: str_def)
  have all: "getURLSearchParams id ?q
      = [(str ''a'', str ''1''), (str ''b'', str ''2''), (str ''b'', str ''3'')]"
    by (simp add: getURLSearchParams_def)
  from query_serialization [OF d, of "str ''b''" id] d all show ?thesis
    by (simp add: str_def)
qed

section \<open>Header normalization\<close>

lemma getOutgoingHeaders_distinct:
  "distinct (map fst hs) \<Longrightarrow>
   getOutgoingHeaders nts (Some hs) =
     Some (map (\<lambda>(headerName, header). (headerName, getOutgoingHeader nts header))
             (filter (\<lambda>(headerName, header). header \<noteq> Undefined) hs))"
  by (simp only: getOutgoingHeaders_def option.case
      fromEntries_distinct [OF distinct_keys_map [OF distinct_keys_filter]])

lemma map_of_outgoing:
  "map_of (map (\<lambda>(headerName, header). (headerName, getOutgoingHeader nts header))
             (filter (\<lambda>(headerName, header). header \<noteq> Undefined) hs)) name =
     (case map_of hs name of
        None \<Rightarrow> None
      | Some header \<Rightarrow> if header = Undefined then None else Some (getOutgoingHeader nts header))"
  if "distinct (map fst hs)"
  using that
proof (induction hs)
  case Nil
  then show ?case by simp
next
  case (Cons e hs)
  obtain headerName header where e: "e = (headerName, header)" by (cases e)
  show ?case
  proof (cases "headerName = name")
    case True
    with Cons.prems have "name \<notin> fst ` set hs" by (auto simp: e)
    then have "map_of hs name = None" by (simp add: map_of_eq_None_iff)
    with Cons True show ?thesis by (simp add: e)
  next
    case False
    with Cons show ?thesis by (simp add: e)
  qed
qed

text \<open>
  C7. For a request-header mapping (its entries have distinct keys),
  \<^verbatim>\<open>getOutgoingHeaders\<close> gives a mapping that has no entry for a header that is absent or
  \<^verbatim>\<open>undefined\<close>, the same string or number for a string or number, the array of the
  string conversions of the elements other than \<^verbatim>\<open>undefined\<close> for an array, and the
  string conversion of the value in every other case.
\<close>

theorem header_normalization:
  assumes "distinct (map fst hs)"
  shows "\<exists>out. getOutgoingHeaders nts (Some hs) = Some out
           \<and> distinct (map fst out)
           \<and> (\<forall>name. map_of out name =
                 (case map_of hs name of
                    None \<Rightarrow> None
                  | Some Undefined \<Rightarrow> None
                  | Some (String s) \<Rightarrow> Some (String s)
                  | Some (Number n) \<Rightarrow> Some (Number n)
                  | Some (Array xs) \<Rightarrow>
                      Some (Array (map (\<lambda>v. String (ToString nts v))
                                     (filter (\<lambda>v. v \<noteq> Undefined) xs)))
                  | Some header \<Rightarrow> Some (String (ToString nts header))))"
proof -
  let ?out = "map (\<lambda>(headerName, header). (headerName, getOutgoingHeader nts header))
             (filter (\<lambda>(headerName, header). header \<noteq> Undefined) hs)"
  have "map_of ?out name =
                 (case map_of hs name of
                    None \<Rightarrow> None
                  | Some Undefined \<Rightarrow> None
                  | Some (String s) \<Rightarrow> Some (String s)
                  | Some (Number n) \<Rightarrow> Some (Number n)
                  | Some (Array xs) \<Rightarrow>
                      Some (Array (map (\<lambda>v. String (ToString nts v))
                                     (filter (\<lambda>v. v \<noteq> Undefined) xs)))
                  | Some header \<Rightarrow> Some (String (ToString nts header)))" for name
    by (simp add: map_of_outgoing [OF assms] split: option.splits jsval.splits)
  moreover have "distinct (map fst ?out)"
    using assms by (rule distinct_keys_map [OF distinct_keys_filter])
  ultimately show ?thesis
    using getOutgoingHeaders_distinct [OF assms] by blast
qed


theorem header_normalization_witness:
  "distinct (map fst [(str ''someCustomHeader'', String (str ''someRandomValue'')),
                      (str ''theArrayHeader'', Array [String (str ''one''), Undefined, Bool True]),
                      (str ''count'', Number (str ''2'')),
                      (str ''skipped'', Undefined),
                      (str ''flag'', Bool False)])
   \<and> getOutgoingHeaders id
         (Some [(str ''someCustomHeader'', String (str ''someRandomValue'')),
                (str ''theArrayHeader'', Array [String (str ''one''), Undefined, Bool True]),
                (str ''count'', Number (str ''2'')),
                (str ''skipped'', Undefined),
                (str ''flag'', Bool False)])
       = Some [(str ''someCustomHeader'', String (str ''someRandomValue'')),
               (str ''theArrayHeader'', Array [String (str ''one''), String (str ''true'')]),
               (str ''count'', Number (str ''2'')),
               (str ''flag'', String (str ''false''))]"
proof -
  let ?hs = "[(str ''someCustomHeader'', String (str ''someRandomValue'')),
              (str ''theArrayHeader'', Array [String (str ''one''), Undefined, Bool True]),
              (str ''count'', Number (str ''2'')),
              (str ''skipped'', Undefined),
              (str ''flag'', Bool False)] :: js_string entries"
  let ?out = "[(str ''someCustomHeader'', String (str ''someRandomValue'')),
               (str ''theArrayHeader'', Array [String (str ''one''), String (str ''true'')]),
               (str ''count'', Number (str ''2'')),
               (str ''flag'', String (str ''false''))] :: js_string entries"
  have d: "distinct (map fst ?hs)"
    by (simp add: str_def)
  have e: "getOutgoingHeaders id (Some ?hs) = Some ?out"
    by (simp add: getOutgoingHeaders_def fromEntries_def str_def)
  from header_normalization [OF d, of id] e d show ?thesis
    by simp
qed

section \<open>Response headers\<close>

text \<open>
  C8. For every response with a status in [200, 300) (its headers have distinct keys), the
  callback gives what \<^verbatim>\<open>JSON.parse\<close> gives for the body: its error, or the result whose
  headers are the entries of the response headers whose value is neither
  \<^verbatim>\<open>undefined\<close> nor \<^verbatim>\<open>null\<close>, unchanged and in their order, and no other entry.
\<close>

theorem response_headers_filtered:
  assumes "request_config rt req = Inr config"
    and "instance config = Inr response"
    and "200 \<le> status response" and "status response < 300"
    and "distinct (map fst (response_headers response))"
  shows "callHTTPEndpoint rt instance reviver req =
           (case JSON_parse (StringToNumber rt) (response_data response) reviver of
              Inl e \<Rightarrow> Inl e
            | Inr b \<Rightarrow>
                Inr \<lparr> result_headers =
                        filter (\<lambda>(name, header). header \<noteq> Undefined \<and> header \<noteq> Null)
                          (response_headers response),
                      result_body = b \<rparr>)
       \<and> (\<forall>result. callHTTPEndpoint rt instance reviver req = Inr result \<longrightarrow>
             set (result_headers result) =
               {(name, header). (name, header) \<in> set (response_headers response)
                  \<and> header \<noteq> Undefined \<and> header \<noteq> Null})"
proof -
  let ?kept = "filter (\<lambda>(name, header). header \<noteq> Undefined \<and> header \<noteq> Null)
             (response_headers response)"
  from assms(5) have "distinct (map fst ?kept)"
    by (rule distinct_keys_filter)
  then have kept: "fromEntries ?kept = ?kept"
    by (rule fromEntries_distinct)
  from assms(1-4) have call: "callHTTPEndpoint rt instance reviver req =
           (case JSON_parse (StringToNumber rt) (response_data response) reviver of
              Inl e \<Rightarrow> Inl e
            | Inr b \<Rightarrow> Inr \<lparr> result_headers = ?kept, result_body = b \<rparr>)"
    by (simp add: callHTTPEndpoint_def response_result_def kept split: sum.splits)
  then have "set (result_headers result) = set ?kept"
    if "callHTTPEndpoint rt instance reviver req = Inr result" for result
    using that by (auto split: sum.splits)
  with call show ?thesis by auto
qed

theorem response_headers_filtered_witness:
  "request_config (example_runtime (example_response 200 (str ''{}'')))
       (example_request (str ''/hello''))
     = Inr \<lparr> request_method = str ''GET'', request_url = str ''/hello'',
             request_headers = None, request_params = None, request_data = None,
             request_responseType = str ''text'' \<rparr>
   \<and> status (example_response 200 (str ''{}'')) = 200
   \<and> distinct (map fst (response_headers (example_response 200 (str ''{}''))))
   \<and> response_headers (example_response 200 (str ''{}''))
     = [(str ''connection'', String (str ''close'')), (str ''x-nothing'', Null),
        (str ''x-missing'', Undefined)]
   \<and> callHTTPEndpoint (example_runtime (example_response 200 (str ''{}'')))
        (answering (example_response 200 (str ''{}''))) (getJSONParseReviver False)
        (example_request (str ''/hello''))
     = Inr \<lparr> result_headers = [(str ''connection'', String (str ''close''))],
             result_body = Object [] \<rparr>"
proof -
  let ?r = "example_response 200 (str ''{}'')"
  let ?rt = "example_runtime ?r"
  let ?req = "example_request (str ''/hello'')"
  let ?config = "\<lparr> request_method = str ''GET'', request_url = str ''/hello'',
             request_headers = None, request_params = None, request_data = None,
             request_responseType = str ''text'' \<rparr> :: js_string axios_request"
  have h1: "request_config ?rt ?req = Inr ?config"
    by (simp add: request_config_def example_defs str_def ensure_Nil ensure_Cons)
  have h2: "answering ?r ?config = Inr ?r"
    by (simp add: answering_def)
  have h3: "200 \<le> status ?r" and h4: "status ?r < 300" and s: "status ?r = 200"
    by (simp_all add: example_response_def)
  have h5: "distinct (map fst (response_headers ?r))"
    by (simp add: example_response_def str_def)
  have hs: "response_headers ?r
     = [(str ''connection'', String (str ''close'')), (str ''x-nothing'', Null),
        (str ''x-missing'', Undefined)]"
    by (simp add: example_response_def)
  have parse: "JSON_parse (StringToNumber ?rt) (response_data ?r) (getJSONParseReviver False)
      = Inr (Object [])"
    by code_simp
  from response_headers_filtered [of ?rt ?req ?config "answering ?r" ?r
      "getJSONParseReviver False", OF h1 h2 h3 h4 h5]
  have "callHTTPEndpoint ?rt (answering ?r) (getJSONParseReviver False) ?req
     = Inr \<lparr> result_headers = [(str ''connection'', String (str ''close''))],
             result_body = Object [] \<rparr>"
    by (simp add: parse hs)
  with h1 s h5 hs show ?thesis by simp
qed

section \<open>The bare string argument\<close>

text \<open>
  C9. For every string \<open>s\<close>, the callback made from the bare string is the callback made
  from the options \<^verbatim>\<open>{config: {baseURL: s}}\<close>: the same function of the request, from
  the same instance construction and the same flag for the reviver.
\<close>

theorem bare_string_is_config:
  "createCallHTTPEndpoint rt (ArgsString s)
     = createCallHTTPEndpoint rt
         (ArgsOptions (OptionsConfig \<lparr> baseURL = s, other_defaults = [] \<rparr> None))
   \<and> caller_instance rt (caller_options (ArgsString s))
     = caller_instance rt (caller_options
         (ArgsOptions (OptionsConfig \<lparr> baseURL = s, other_defaults = [] \<rparr> None)))
   \<and> allowProtoProperty (caller_options (ArgsString s) :: 'n HTTPEndpointCallerOptions)
     = allowProtoProperty (caller_options
         (ArgsOptions (OptionsConfig \<lparr> baseURL = s, other_defaults = [] \<rparr> None)
            :: 'n HTTPEndpointCallerArgs))"
  by (simp add: createCallHTTPEndpoint_def)

section \<open>Null values\<close>

text \<open>
  C10. A \<^verbatim>\<open>null\<close> value is not dropped: a query entry with value \<^verbatim>\<open>null\<close> is emitted
  once with the string \<^verbatim>\<open>null\<close>, in its place; a \<^verbatim>\<open>null\<close> header becomes the string
  \<^verbatim>\<open>null\<close>; a \<^verbatim>\<open>null\<close> element of a header array is kept, in its place, as the
  string \<^verbatim>\<open>null\<close>; and a header entry (of a mapping with distinct keys) whose value is
  \<^verbatim>\<open>null\<close> is an entry of the outgoing headers with the string \<^verbatim>\<open>null\<close>.
\<close>

theorem null_is_converted:
  assumes "(name, Null) \<in> set hs" and "distinct (map fst hs)"
  shows "getURLSearchParams nts (q1 @ (k, Null) # q2)
           = getURLSearchParams nts q1 @ (k, str ''null'') # getURLSearchParams nts q2
       \<and> getOutgoingHeader nts Null = String (str ''null'')
       \<and> getOutgoingHeader nts (Array (xs @ Null # ys))
           = Array (map (\<lambda>v. String (ToString nts v)) (filter (\<lambda>v. v \<noteq> Undefined) xs)
                    @ String (str ''null'')
                    # map (\<lambda>v. String (ToString nts v)) (filter (\<lambda>v. v \<noteq> Undefined) ys))
       \<and> (\<exists>out. getOutgoingHeaders nts (Some hs) = Some out
             \<and> map_of out name = Some (String (str ''null'')))"
proof -
  from assms have "map_of hs name = Some Null"
    by simp
  then have "map_of (map (\<lambda>(headerName, header). (headerName, getOutgoingHeader nts header))
             (filter (\<lambda>(headerName, header). header \<noteq> Undefined) hs)) name
      = Some (String (str ''null''))"
    by (simp add: map_of_outgoing [OF assms(2)])
  with getOutgoingHeaders_distinct [OF assms(2), of nts]
  have "\<exists>out. getOutgoingHeaders nts (Some hs) = Some out
             \<and> map_of out name = Some (String (str ''null''))"
    by simp
  then show ?thesis
    by (simp add: getURLSearchParams_append getURLSearchParams_Cons)
qed

theorem null_is_converted_witness:
  "(str ''x-null'', Null) \<in> set [(str ''accept'', String (str ''text/plain'')), (str ''x-null'', Null)]
   \<and> distinct (map fst [(str ''accept'', String (str ''text/plain'')), (str ''x-null'', Null)])
   \<and> getURLSearchParams id [(str ''a'', String (str ''1'')), (str ''n'', Null)]
       = [(str ''a'', str ''1''), (str ''n'', str ''null'')]
   \<and> getOutgoingHeader id (Array [String (str ''one''), Null, Undefined])
       = Array [String (str ''one''), String (str ''null'')]
   \<and> getOutgoingHeaders id (Some [(str ''accept'', String (str ''text/plain'')), (str ''x-null'', Null)])
       = Some [(str ''accept'', String (str ''text/plain'')), (str ''x-null'', String (str ''null''))]"
proof -
  let ?hs = "[(str ''accept'', String (str ''text/plain'')), (str ''x-null'', Null)]
      :: js_string entries"
  have m: "(str ''x-null'', Null) \<in> set ?hs"
    by simp
  have d: "distinct (map fst ?hs)"
    by (simp add: str_def)
  have out: "getOutgoingHeaders id (Some ?hs)
      = Some [(str ''accept'', String (str ''text/plain'')), (str ''x-null'', String (str ''null''))]"
    by (simp add: getOutgoingHeaders_def fromEntries_def str_def)
  from null_is_converted [OF m d, of id "[(str ''a'', String (str ''1''))]" "str ''n''" "[]"
      "[String (str ''one'')]" "[Undefined]"]
  show ?thesis using m d out
    by (simp add: getURLSearchParams_def)
qed


end
